theory Spec2Isabelle
  imports Complex_Main
begin

section \<open>Text utilities\<close>

text \<open>
  Python strings are modelled as \<^typ>\<open>string\<close>, one \<^typ>\<open>char\<close> per code point, which
  covers the code points below 256. \<open>str.strip()\<close> removes the characters for which
  \<open>str.isspace\<close> holds; below 256 these are U+0009 to U+000D, U+001C to U+0020,
  U+0085 and U+00A0.
\<close>

definition isspace :: "char \<Rightarrow> bool" where
  "isspace c = ((of_char c :: nat) \<in> set [9, 10, 11, 12, 13, 28, 29, 30, 31, 32, 133, 160])"

definition py_strip :: "string \<Rightarrow> string" where
  "py_strip s = rev (dropWhile isspace (rev (dropWhile isspace s)))"

definition startswith :: "string \<Rightarrow> string \<Rightarrow> bool" where
  "startswith s p = (take (length p) s = p)"

text \<open>
  \<open>find_sub p s\<close> locates the leftmost occurrence of \<open>p\<close> in \<open>s\<close> and returns the text
  before it and the text after it.
\<close>

fun find_sub :: "string \<Rightarrow> string \<Rightarrow> (string \<times> string) option" where
  "find_sub p [] = (if p = [] then Some ([], []) else None)"
| "find_sub p (c # cs) =
     (if startswith (c # cs) p then Some ([], drop (length p) (c # cs))
      else (case find_sub p cs of
              None \<Rightarrow> None
            | Some (b, a) \<Rightarrow> Some (c # b, a)))"

lemma find_sub_decomp: "find_sub p s = Some (b, a) \<Longrightarrow> s = b @ p @ a"
proof (induction s arbitrary: b)
  case Nil
  then show ?case by (simp split: if_splits)
next
  case (Cons c cs)
  show ?case
  proof (cases "startswith (c # cs) p")
    case True
    with Cons.prems have "b = []" and "a = drop (length p) (c # cs)" by simp_all
    moreover from True have "take (length p) (c # cs) = p" by (simp add: startswith_def)
    ultimately show ?thesis by (metis append_Nil append_take_drop_id)
  next
    case False
    with Cons.prems obtain b' where "find_sub p cs = Some (b', a)" and "b = c # b'"
      by (auto split: option.splits)
    with Cons.IH show ?thesis by simp
  qed
qed

lemma find_sub_shorter:
  assumes "find_sub p s = Some (b, a)" and "p \<noteq> []"
  shows "length a < length s"
proof -
  from assms(1) have "s = b @ p @ a" by (rule find_sub_decomp)
  then have "length s = length b + length p + length a" by simp
  moreover from assms(2) have "0 < length p" by simp
  ultimately show ?thesis by linarith
qed

text \<open>
  \<open>lazy_group opn cls s\<close> is the match of \<open>opn(.*?)cls\<close> under \<open>re.DOTALL\<close>: the text
  between the leftmost \<open>opn\<close> and the first \<open>cls\<close> behind it, with the text behind that
  \<open>cls\<close>. When the leftmost \<open>opn\<close> has no \<open>cls\<close> behind it, no later one has.
\<close>

definition lazy_group :: "string \<Rightarrow> string \<Rightarrow> string \<Rightarrow> (string \<times> string) option" where
  "lazy_group opn cls s =
     (case find_sub opn s of
        None \<Rightarrow> None
      | Some (_, r) \<Rightarrow> find_sub cls r)"

lemma lazy_group_shorter:
  assumes "lazy_group opn cls s = Some (g, r)" and "cls \<noteq> []"
  shows "length r < length s"
proof -
  from assms(1) obtain b r0 where o: "find_sub opn s = Some (b, r0)" and c: "find_sub cls r0 = Some (g, r)"
    by (auto simp: lazy_group_def split: option.splits)
  from o have "s = b @ opn @ r0" by (rule find_sub_decomp)
  then have "length r0 \<le> length s" by simp
  moreover from c assms(2) have "length r < length r0" by (rule find_sub_shorter)
  ultimately show ?thesis by linarith
qed

section \<open>The regular expressions of \<open>fetch_abstracts\<close>\<close>

text \<open>
  \<open>re.findall(r"<PubmedArticle>(.*?)</PubmedArticle>", xml_content, re.DOTALL)\<close>: one
  group per match, the scan going on behind each match.
\<close>

function findall_articles :: "string \<Rightarrow> string list" where
  "findall_articles s =
     (case lazy_group ''<PubmedArticle>'' ''</PubmedArticle>'' s of
        None \<Rightarrow> []
      | Some (g, r) \<Rightarrow> g # findall_articles r)"
  by pat_completeness auto
termination
  by (relation "measure length") (auto dest: lazy_group_shorter)

declare findall_articles.simps [simp del]

text \<open>
  \<open>re.search(r"<ArticleTitle>(.*?)</ArticleTitle>", article, re.DOTALL)\<close>, as its
  group 1.
\<close>

definition title_match :: "string \<Rightarrow> string option" where
  "title_match article =
     map_option fst (lazy_group ''<ArticleTitle>'' ''</ArticleTitle>'' article)"

text \<open>
  \<open>re.search(r"<AbstractText.*?>(.*?)</AbstractText>", article, re.DOTALL)\<close>: the first
  lazy run ends at the first \<open>>\<close> behind the leftmost \<open><AbstractText\<close>, the group at
  the first closing tag behind that.
\<close>

definition abstract_match :: "string \<Rightarrow> string option" where
  "abstract_match article =
     (case find_sub ''<AbstractText'' article of
        None \<Rightarrow> None
      | Some (_, r) \<Rightarrow> map_option fst (lazy_group ''>'' ''</AbstractText>'' r))"

text \<open>
  \<open>re.search(r"<PMID Version=\"1\">(.*?)</PMID>", article)\<close> has no \<open>re.DOTALL\<close>, so the
  group cannot hold a line feed: an opening tag whose text up to the first \<open></PMID>\<close>
  holds one does not match, and the search goes on at the next opening tag.
\<close>

function pmid_match :: "string \<Rightarrow> string option" where
  \<open>pmid_match article =
     (case find_sub ''<PMID Version="1">'' article of
        None \<Rightarrow> None
      | Some (_, r) \<Rightarrow>
          (case find_sub ''</PMID>'' r of
             None \<Rightarrow> None
           | Some (g, _) \<Rightarrow> if CHR 0x0A \<in> set g then pmid_match r else Some g))\<close>
  by pat_completeness auto
termination
  by (relation "measure length") (auto dest: find_sub_shorter)

declare pmid_match.simps [simp del]

text \<open>\<open>re.search(r"<PubDate>.*?<Year>(.*?)</Year>", article, re.DOTALL)\<close>.\<close>

definition year_match :: "string \<Rightarrow> string option" where
  "year_match article =
     (case find_sub ''<PubDate>'' article of
        None \<Rightarrow> None
      | Some (_, r) \<Rightarrow> map_option fst (lazy_group ''<Year>'' ''</Year>'' r))"

text \<open>
  \<open>re.sub(r"<[^>]+>", "", s)\<close>: at a \<open><\<close> the greedy class takes every character up to
  the next \<open>>\<close>; the tag is removed when that run is not empty and a \<open>>\<close> follows it,
  otherwise the \<open><\<close> stays and the scan moves one character on.
\<close>

function strip_tags :: "string \<Rightarrow> string" where
  "strip_tags [] = []"
| "strip_tags (c # cs) =
     (if c = CHR ''<'' \<and> takeWhile (\<lambda>x. x \<noteq> CHR ''>'') cs \<noteq> []
         \<and> dropWhile (\<lambda>x. x \<noteq> CHR ''>'') cs \<noteq> []
      then strip_tags (tl (dropWhile (\<lambda>x. x \<noteq> CHR ''>'') cs))
      else c # strip_tags cs)"
  by pat_completeness auto
termination
proof (relation "measure length")
  show "wf (measure length)" by simp
next
  fix c :: char and cs :: string
  have "length (tl (dropWhile (\<lambda>x. x \<noteq> CHR ''>'') cs)) \<le> length cs"
    using length_dropWhile_le [of "\<lambda>x. x \<noteq> CHR ''>''" cs] by simp
  then show "(tl (dropWhile (\<lambda>x. x \<noteq> CHR ''>'') cs), c # cs) \<in> measure length" by simp
next
  fix c :: char and cs :: string
  show "(cs, c # cs) \<in> measure length" by simp
qed

section \<open>Literature records and the parse loop\<close>

text \<open>The dictionary that \<open>fetch_abstracts\<close> appends for one article block.\<close>

record abstract_record =
  title :: string
  abstract :: string
  url :: string
  doi :: string
  year :: "string option"

text \<open>The local \<open>pmid\<close>: the stripped group of \<open>pmid_match\<close>, or the placeholder.\<close>

definition pmid_of :: "string \<Rightarrow> string" where
  "pmid_of article =
     (case pmid_match article of
        Some g \<Rightarrow> py_strip g
      | None \<Rightarrow> ''unknown'')"

definition record_of :: "string \<Rightarrow> string \<Rightarrow> string \<Rightarrow> abstract_record" where
  "record_of article t a =
     \<lparr> title = py_strip (strip_tags t),
       abstract = py_strip (strip_tags a),
       url = ''https://pubmed.ncbi.nlm.nih.gov/'' @ pmid_of article @ ''/'',
       doi = ''https://pubmed.ncbi.nlm.nih.gov/'' @ pmid_of article @ ''/'',
       year = map_option py_strip (year_match article) \<rparr>"

text \<open>
  The \<open>for article in articles\<close> loop, with the list \<open>abstracts\<close> as accumulator: a block
  is appended when both \<open>title_match\<close> and \<open>abstract_match\<close> are match objects.
\<close>

fun parse_loop :: "string list \<Rightarrow> abstract_record list \<Rightarrow> abstract_record list" where
  "parse_loop [] abstracts = abstracts"
| "parse_loop (article # articles) abstracts =
     (case title_match article of
        None \<Rightarrow> parse_loop articles abstracts
      | Some t \<Rightarrow>
          (case abstract_match article of
             None \<Rightarrow> parse_loop articles abstracts
           | Some a \<Rightarrow> parse_loop articles (abstracts @ [record_of article t a])))"

definition parse_articles :: "string \<Rightarrow> abstract_record list" where
  "parse_articles xml_content = parse_loop (findall_articles xml_content) []"

section \<open>JSON values and the Python operations on them\<close>

text \<open>
  What \<open>json.loads\<close> returns: \<open>None\<close>, a \<open>bool\<close>, an \<open>int\<close>, a finite \<open>float\<close> (as the
  number it denotes), a \<open>str\<close>, a \<open>list\<close> or a \<open>dict\<close> with string keys, in insertion
  order. The external services decide these values, so nothing about their shape is
  assumed.
\<close>

datatype json =
    JNull
  | JBool bool
  | JInt int
  | JFloat real
  | JStr string
  | JArr "json list"
  | JObj "(string \<times> json) list"

text \<open>The exceptions that the pipeline raises or catches.\<close>

datatype error =
    TypeError
  | AttributeError
  | KeyError
  | IndexError
  | JSONDecodeError
  | UnboundLocalError
  | ClientError
  | OtherError string

text \<open>\<open>obj.get(key, default)\<close>: only a \<open>dict\<close> has the method.\<close>

fun py_get :: "json \<Rightarrow> string \<Rightarrow> json \<Rightarrow> error + json" where
  "py_get (JObj kvs) k d = Inr (case map_of kvs k of None \<Rightarrow> d | Some v \<Rightarrow> v)"
| "py_get _ k d = Inl AttributeError"

text \<open>
  \<open>all_pmids.extend(pmids)\<close> iterates its argument: a list gives its elements, a string
  its characters, a dict its keys; the other values are not iterable.
\<close>

fun py_extend :: "json list \<Rightarrow> json \<Rightarrow> error + json list" where
  "py_extend acc (JArr xs) = Inr (acc @ xs)"
| "py_extend acc (JStr s) = Inr (acc @ map (\<lambda>c. JStr [c]) s)"
| "py_extend acc (JObj kvs) = Inr (acc @ map (\<lambda>kv. JStr (fst kv)) kvs)"
| "py_extend acc _ = Inl TypeError"

text \<open>
  Dictionary keys: lists and dicts are unhashable; numbers and booleans are equal as
  keys when they are equal as numbers (\<open>True == 1 == 1.0\<close>).
\<close>

fun hashable :: "json \<Rightarrow> bool" where
  "hashable (JArr _) = False"
| "hashable (JObj _) = False"
| "hashable _ = True"

fun num_val :: "json \<Rightarrow> real option" where
  "num_val (JBool b) = Some (if b then 1 else 0)"
| "num_val (JInt n) = Some (of_int n)"
| "num_val (JFloat r) = Some r"
| "num_val _ = None"

definition py_eq :: "json \<Rightarrow> json \<Rightarrow> bool" where
  "py_eq a b =
     (case num_val a of
        Some x \<Rightarrow> (case num_val b of Some y \<Rightarrow> x = y | None \<Rightarrow> False)
      | None \<Rightarrow> (case num_val b of Some y \<Rightarrow> False | None \<Rightarrow> a = b))"

text \<open>
  \<open>dict.fromkeys(xs)\<close>, as the list of its keys: each element is hashed and inserted
  unless an equal key is there already.
\<close>

fun fromkeys :: "json list \<Rightarrow> json list \<Rightarrow> error + json list" where
  "fromkeys [] keys = Inr keys"
| "fromkeys (x # xs) keys =
     (if \<not> hashable x then Inl TypeError
      else if list_ex (\<lambda>k. py_eq k x) keys then fromkeys xs keys
      else fromkeys xs (keys @ [x]))"

text \<open>\<open>sep.join(xs)\<close> raises \<open>TypeError\<close> unless every element is a string.\<close>

fun py_join :: "string \<Rightarrow> json list \<Rightarrow> error + string" where
  "py_join sep [] = Inr []"
| "py_join sep [JStr s] = Inr s"
| "py_join sep (JStr s # x # xs) =
     (case py_join sep (x # xs) of
        Inl e \<Rightarrow> Inl e
      | Inr r \<Rightarrow> Inr (s @ sep @ r))"
| "py_join sep (_ # xs) = Inl TypeError"

section \<open>Retrieval: \<open>search_pubmed\<close>, deduplication, \<open>fetch_abstracts\<close>\<close>

text \<open>
  The search service is given by the outcome of \<open>urlopen(url)\<close> and \<open>resp.read()\<close> for
  a query and \<open>retmax\<close>: an exception (transport error, timeout) or the text of the
  body; \<open>loads\<close> is \<open>json.loads\<close>, \<open>None\<close> when it raises. The \<open>except Exception\<close>
  clause also catches the \<open>AttributeError\<close> of a \<open>.get\<close> on a value that is no dict.
\<close>

definition search_pubmed ::
  "(string \<Rightarrow> json option) \<Rightarrow> (string \<Rightarrow> nat \<Rightarrow> error + string) \<Rightarrow> string \<Rightarrow> nat \<Rightarrow> json"
where
  "search_pubmed loads esearch query max_results =
     (case esearch query max_results of
        Inl e \<Rightarrow> JArr []
      | Inr body \<Rightarrow>
          (case loads body of
             None \<Rightarrow> JArr []
           | Some data \<Rightarrow>
               (case py_get data ''esearchresult'' (JObj []) of
                  Inl e \<Rightarrow> JArr []
                | Inr res \<Rightarrow>
                    (case py_get res ''idlist'' (JArr []) of
                       Inl e \<Rightarrow> JArr []
                     | Inr ids \<Rightarrow> ids))))"

text \<open>
  The loop \<open>for q in queries\<close> of \<open>handler\<close>; \<open>esearch i\<close> is the service's behaviour at
  the \<open>i\<close>-th call.
\<close>

fun search_loop ::
  "(string \<Rightarrow> json option) \<Rightarrow> (nat \<Rightarrow> string \<Rightarrow> nat \<Rightarrow> error + string) \<Rightarrow> nat \<Rightarrow> string list
     \<Rightarrow> json list \<Rightarrow> error + json list"
where
  "search_loop loads esearch i [] all_pmids = Inr all_pmids"
| "search_loop loads esearch i (q # qs) all_pmids =
     (case py_extend all_pmids (search_pubmed loads (esearch i) q 2) of
        Inl e \<Rightarrow> Inl e
      | Inr all_pmids' \<Rightarrow> search_loop loads esearch (Suc i) qs all_pmids')"

text \<open>\<open>list(dict.fromkeys(all_pmids))[:5]\<close>.\<close>

definition dedupe_cap :: "json list \<Rightarrow> error + json list" where
  "dedupe_cap all_pmids =
     (case fromkeys all_pmids [] of
        Inl e \<Rightarrow> Inl e
      | Inr keys \<Rightarrow> Inr (take 5 keys))"

text \<open>Step 2 of \<open>handler\<close>: the search loop, then deduplication and the cap.\<close>

definition collect_pmids ::
  "(string \<Rightarrow> json option) \<Rightarrow> (nat \<Rightarrow> string \<Rightarrow> nat \<Rightarrow> error + string) \<Rightarrow> string list
     \<Rightarrow> error + json list"
where
  "collect_pmids loads esearch queries =
     (case search_loop loads esearch 0 queries [] of
        Inl e \<Rightarrow> Inl e
      | Inr all_pmids \<Rightarrow> dedupe_cap all_pmids)"

text \<open>
  \<open>fetch_abstracts\<close>. The fetch service is given by the outcome of the
  \<open>with urlopen(url)\<close> block for the joined identifiers: an exception (transport error,
  timeout, a body that is not UTF-8) or the decoded \<open>xml_content\<close>. The join happens
  before the \<open>try\<close>, so its \<open>TypeError\<close> leaves the function; the regular expressions,
  \<open>re.sub\<close> and \<open>strip\<close> are total on strings.
\<close>

definition fetch_abstracts ::
  "(string \<Rightarrow> error + string) \<Rightarrow> json list \<Rightarrow> error + abstract_record list"
where
  "fetch_abstracts efetch pmids =
     (if pmids = [] then Inr []
      else
        (case py_join '','' pmids of
           Inl e \<Rightarrow> Inl e
         | Inr ids \<Rightarrow>
             (case efetch ids of
                Inl e \<Rightarrow> Inr []
              | Inr xml_content \<Rightarrow> Inr (parse_articles xml_content))))"

text \<open>Steps 2 and 3 of \<open>handler\<close>, from the queries to the list \<open>abstracts\<close>.\<close>

definition retrieval ::
  "(string \<Rightarrow> json option) \<Rightarrow> (nat \<Rightarrow> string \<Rightarrow> nat \<Rightarrow> error + string)
     \<Rightarrow> (string \<Rightarrow> error + string) \<Rightarrow> string list \<Rightarrow> error + abstract_record list"
where
  "retrieval loads esearch efetch queries =
     (case collect_pmids loads esearch queries of
        Inl e \<Rightarrow> Inl e
      | Inr all_pmids \<Rightarrow> fetch_abstracts efetch all_pmids)"

section \<open>Query planning: \<open>build_search_queries\<close>\<close>

text \<open>
  \<open>user_data\<close> is the dictionary of the request with its seven keys typed as the risk
  profile gives them; a field is \<open>None\<close> when the key is missing, and \<open>.get\<close> then
  yields its default. On these values \<open>float\<close> and \<open>int\<close> change nothing that the
  comparisons below can see. The list \<open>base_factors\<close> of the source is never read.
\<close>

record user_data =
  smokingStatus :: "string option"
  alcoholConsumption :: "string option"
  bmi :: "real option"
  dietaryPattern :: "string option"
  familyHistory :: "string list option"
  age :: "int option"
  sex :: "string option"

text \<open>The loop \<open>for condition in family_history\<close>, with \<open>queries\<close> as accumulator.\<close>

fun family_loop :: "string list \<Rightarrow> string list \<Rightarrow> string list" where
  "family_loop [] queries = queries"
| "family_loop (condition # rest) queries =
     family_loop rest
       (if condition \<noteq> [] then queries @ [''hereditary '' @ condition @ '' cancer genetic risk'']
        else queries)"

text \<open>The queries appended by the rule clauses, before the fallback and the cut.\<close>

definition clause_queries :: "user_data \<Rightarrow> string list" where
  "clause_queries u =
     (let queries = [];
          queries = (if smokingStatus u = Some ''current''
                     then queries @ [''smoking lung cancer risk factors epidemiology'']
                     else queries);
          queries = (if smokingStatus u = Some ''former''
                     then queries @ [''former smoker cancer risk reduction'']
                     else queries);
          alcohol = (case alcoholConsumption u of None \<Rightarrow> ''none'' | Some v \<Rightarrow> v);
          queries = (if alcohol \<in> set [''moderate'', ''heavy'']
                     then queries @ [''alcohol consumption cancer risk liver colorectal'']
                     else queries);
          bmi = (case bmi u of None \<Rightarrow> 22 | Some v \<Rightarrow> v);
          queries = (if bmi \<ge> 30
                     then queries @ [''obesity BMI cancer risk endometrial breast colorectal'']
                     else if bmi \<ge> 25
                     then queries @ [''overweight cancer risk metabolic syndrome'']
                     else queries);
          diet = (case dietaryPattern u of None \<Rightarrow> [] | Some v \<Rightarrow> v);
          queries = (if diet = ''western''
                     then queries @ [''western diet processed food cancer risk'']
                     else if diet \<in> set [''mediterranean'', ''vegetarian'', ''vegan'']
                     then queries @ [''plant based diet cancer prevention'']
                     else queries);
          family_history = (case familyHistory u of None \<Rightarrow> [] | Some v \<Rightarrow> v);
          queries = family_loop family_history queries;
          age = (case age u of None \<Rightarrow> 40 | Some v \<Rightarrow> v);
          sex = (case sex u of None \<Rightarrow> ''other'' | Some v \<Rightarrow> v);
          queries = (if age \<ge> 50 \<and> sex = ''male''
                     then queries @ [''prostate cancer age risk screening men'']
                     else queries);
          queries = (if age \<ge> 40 \<and> sex = ''female''
                     then queries @ [''breast cancer age risk screening women mammography'']
                     else queries);
          queries = (if age \<ge> 45
                     then queries @ [''colorectal cancer age risk colonoscopy screening'']
                     else queries)
      in queries)"

definition build_search_queries :: "user_data \<Rightarrow> string list" where
  "build_search_queries u =
     (let queries = clause_queries u;
          queries = (if queries = []
                     then queries @ [''lifestyle cancer risk prevention epidemiology'']
                     else queries)
      in take 3 queries)"

section \<open>Synthesis: \<open>invoke_bedrock\<close>\<close>

text \<open>
  \<open>re.sub(r"```json|```", "", raw_text)\<close>: at each position the first alternative is
  tried first, and the scan goes on behind a removed fence.
\<close>

fun sub_fences :: "string \<Rightarrow> string" where
  "sub_fences [] = []"
| "sub_fences (c # cs) =
     (if startswith (c # cs) ''```json'' then sub_fences (drop 6 cs)
      else if startswith (c # cs) ''```'' then sub_fences (drop 2 cs)
      else c # sub_fences cs)"

text \<open>\<open>obj[key]\<close> for a string key, and \<open>obj[0]\<close>.\<close>

fun py_item :: "json \<Rightarrow> string \<Rightarrow> error + json" where
  "py_item (JObj kvs) k = (case map_of kvs k of None \<Rightarrow> Inl KeyError | Some v \<Rightarrow> Inr v)"
| "py_item _ k = Inl TypeError"

fun py_first :: "json \<Rightarrow> error + json" where
  "py_first (JArr []) = Inl IndexError"
| "py_first (JArr (x # xs)) = Inr x"
| "py_first (JStr []) = Inl IndexError"
| "py_first (JStr (c # cs)) = Inr (JStr [c])"
| "py_first (JObj kvs) = Inl KeyError"
| "py_first _ = Inl TypeError"

text \<open>\<open>result["content"][0]["text"]\<close>.\<close>

definition response_text :: "json \<Rightarrow> error + json" where
  "response_text result =
     (case py_item result ''content'' of
        Inl e \<Rightarrow> Inl e
      | Inr content \<Rightarrow>
          (case py_first content of
             Inl e \<Rightarrow> Inl e
           | Inr block \<Rightarrow> py_item block ''text''))"

text \<open>
  \<open>invoke_bedrock\<close>. The inference service is given by the outcome of
  \<open>bedrock.invoke_model\<close> for the prompt built from the profile and the abstracts: an
  exception or the text of the response body; \<open>loads\<close> is \<open>json.loads\<close>. A
  \<open>ClientError\<close> and a \<open>JSONDecodeError\<close> are printed and raised again, every other
  exception passes through. When the body itself is not JSON, the handler of
  \<open>JSONDecodeError\<close> reads \<open>raw_text\<close> before its assignment.
\<close>

definition invoke_bedrock ::
  "(string \<Rightarrow> json option) \<Rightarrow> (user_data \<Rightarrow> abstract_record list \<Rightarrow> error + string)
     \<Rightarrow> user_data \<Rightarrow> abstract_record list \<Rightarrow> error + json"
where
  "invoke_bedrock loads invoke_model user_data abstracts =
     (case invoke_model user_data abstracts of
        Inl e \<Rightarrow> if e = JSONDecodeError then Inl UnboundLocalError else Inl e
      | Inr body \<Rightarrow>
          (case loads body of
             None \<Rightarrow> Inl UnboundLocalError
           | Some result \<Rightarrow>
               (case response_text result of
                  Inl e \<Rightarrow> Inl e
                | Inr (JStr raw_text) \<Rightarrow>
                    (case loads (py_strip (sub_fences raw_text)) of
                       None \<Rightarrow> Inl JSONDecodeError
                     | Some report \<Rightarrow> Inr report)
                | Inr _ \<Rightarrow> Inl TypeError)))"

section \<open>The pipeline: \<open>handler\<close>\<close>

text \<open>\<open>obj[key] = value\<close>: a dict keeps the place of a key it has, and appends a new one.\<close>

fun dict_set :: "(string \<times> json) list \<Rightarrow> string \<Rightarrow> json \<Rightarrow> (string \<times> json) list" where
  "dict_set [] k v = [(k, v)]"
| "dict_set (p # ps) k v = (if fst p = k then (k, v) # ps else p # dict_set ps k v)"

fun py_setitem :: "json \<Rightarrow> string \<Rightarrow> json \<Rightarrow> error + json" where
  "py_setitem (JObj kvs) k v = Inr (JObj (dict_set kvs k v))"
| "py_setitem _ k v = Inl TypeError"

definition record_json :: "abstract_record \<Rightarrow> json" where
  "record_json r =
     JObj [(''title'', JStr (title r)),
           (''abstract'', JStr (abstract r)),
           (''url'', JStr (url r)),
           (''doi'', JStr (doi r)),
           (''year'', case year r of None \<Rightarrow> JNull | Some y \<Rightarrow> JStr y)]"

text \<open>
  Step 4 of \<open>handler\<close>: \<open>invoke_bedrock\<close>, then the abstracts and the request
  identifier are stored in its result.
\<close>

definition synthesize ::
  "(string \<Rightarrow> json option) \<Rightarrow> (user_data \<Rightarrow> abstract_record list \<Rightarrow> error + string)
     \<Rightarrow> user_data \<Rightarrow> abstract_record list \<Rightarrow> string \<Rightarrow> error + json"
where
  "synthesize loads invoke_model user_data abstracts aws_request_id =
     (case invoke_bedrock loads invoke_model user_data abstracts of
        Inl e \<Rightarrow> Inl e
      | Inr llm_result \<Rightarrow>
          (case py_setitem llm_result ''searchedAbstracts'' (JArr (map record_json abstracts)) of
             Inl e \<Rightarrow> Inl e
           | Inr llm_result' \<Rightarrow> py_setitem llm_result' ''timestamp'' (JStr aws_request_id)))"

text \<open>
  The request: its HTTP method and the \<open>userData\<close> of its body, \<open>None\<close> when the key is
  missing or its value is empty. The response: the status code and what \<open>json.dumps\<close>
  serialises into the body; the headers are the same on every path.
\<close>

record event =
  httpMethod :: "string option"
  userData :: "user_data option"

datatype response_body =
    NoBody
  | ErrorMessage string
  | ExceptionText error
  | Report json

record response =
  statusCode :: nat
  body :: response_body

text \<open>
  \<open>handler\<close> returns its response together with the number of times it has called
  \<open>invoke_bedrock\<close>.
\<close>

definition handler ::
  "(string \<Rightarrow> json option) \<Rightarrow> (nat \<Rightarrow> string \<Rightarrow> nat \<Rightarrow> error + string)
     \<Rightarrow> (string \<Rightarrow> error + string)
     \<Rightarrow> (user_data \<Rightarrow> abstract_record list \<Rightarrow> error + string)
     \<Rightarrow> event \<Rightarrow> string \<Rightarrow> response \<times> nat"
where
  "handler loads esearch efetch invoke_model event aws_request_id =
     (if httpMethod event = Some ''OPTIONS'' then (\<lparr>statusCode = 200, body = NoBody\<rparr>, 0)
      else
        (case userData event of
           None \<Rightarrow> (\<lparr>statusCode = 400, body = ErrorMessage ''userData is required''\<rparr>, 0)
         | Some user_data \<Rightarrow>
             (case retrieval loads esearch efetch (build_search_queries user_data) of
                Inl e \<Rightarrow> (\<lparr>statusCode = 500, body = ExceptionText e\<rparr>, 0)
              | Inr abstracts \<Rightarrow>
                  if abstracts = []
                  then (\<lparr>statusCode = 502,
                          body = ErrorMessage ''No abstracts could be retrieved from PubMed''\<rparr>, 0)
                  else
                    (case synthesize loads invoke_model user_data abstracts aws_request_id of
                       Inl e \<Rightarrow> (\<lparr>statusCode = 500, body = ExceptionText e\<rparr>, 1)
                     | Inr llm_result \<Rightarrow> (\<lparr>statusCode = 200, body = Report llm_result\<rparr>, 1)))))"

section \<open>Properties of query planning\<close>

lemma family_loop_eq:
  "family_loop cs qs =
     qs @ map (\<lambda>c. ''hereditary '' @ c @ '' cancer genetic risk'') (filter (\<lambda>c. c \<noteq> []) cs)"
  by (induction cs arbitrary: qs) auto

lemma all_append_if:
  "list_all P (if c then qs @ [q] else qs) = (list_all P qs \<and> (c \<longrightarrow> P q))"
  by simp

lemma all_append_elif:
  "list_all P (if a then qs @ [x] else if b then qs @ [y] else qs) =
     (list_all P qs \<and> (a \<longrightarrow> P x) \<and> (\<not> a \<and> b \<longrightarrow> P y))"
  by simp

lemma all_family_loop:
  "list_all (\<lambda>q. q \<noteq> []) (family_loop cs qs) = list_all (\<lambda>q. q \<noteq> []) qs"
  by (auto simp: family_loop_eq list_all_iff)

lemma clause_queries_nonempty: "list_all (\<lambda>q. q \<noteq> []) (clause_queries u)"
  unfolding clause_queries_def Let_def
  by (simp only: all_append_if all_append_elif all_family_loop) simp

lemma build_search_queries_length:
  "1 \<le> length (build_search_queries u) \<and> length (build_search_queries u) \<le> 3"
  by (cases "clause_queries u") (simp_all add: build_search_queries_def Let_def)

lemma build_search_queries_nonempty: "list_all (\<lambda>q. q \<noteq> []) (build_search_queries u)"
  using clause_queries_nonempty [of u]
  by (auto simp: build_search_queries_def Let_def list_all_iff dest: in_set_takeD)

text \<open>
  Claim C4. For every risk profile, \<open>build_search_queries\<close> returns at least one and at
  most three queries, none of them the empty string, and a profile equal to it yields
  the same list. The profile's fields range over all values of their types and may be
  missing, so every valid profile is covered; the result is a function of the profile
  alone, the source reading no state, clock or random source.
\<close>

theorem build_search_queries_bounds:
  "1 \<le> length (build_search_queries u) \<and> length (build_search_queries u) \<le> 3
   \<and> list_all (\<lambda>q. q \<noteq> []) (build_search_queries u)
   \<and> (\<forall>u'. u' = u \<longrightarrow> build_search_queries u' = build_search_queries u)"
  using build_search_queries_length [of u] build_search_queries_nonempty [of u] by simp

theorem build_search_queries_bounds_witness:
  "build_search_queries
     \<lparr>smokingStatus = Some ''former'', alcoholConsumption = Some ''heavy'', bmi = Some 31,
      dietaryPattern = Some ''vegan'', familyHistory = Some [''breast''], age = Some 60,
      sex = Some ''male''\<rparr>
     = [''former smoker cancer risk reduction'',
        ''alcohol consumption cancer risk liver colorectal'',
        ''obesity BMI cancer risk endometrial breast colorectal'']
   \<and> 1 \<le> length (build_search_queries
     \<lparr>smokingStatus = Some ''former'', alcoholConsumption = Some ''heavy'', bmi = Some 31,
      dietaryPattern = Some ''vegan'', familyHistory = Some [''breast''], age = Some 60,
      sex = Some ''male''\<rparr>)
   \<and> length (build_search_queries
     \<lparr>smokingStatus = Some ''former'', alcoholConsumption = Some ''heavy'', bmi = Some 31,
      dietaryPattern = Some ''vegan'', familyHistory = Some [''breast''], age = Some 60,
      sex = Some ''male''\<rparr>) \<le> 3"
  using build_search_queries_bounds [of
     "\<lparr>smokingStatus = Some ''former'', alcoholConsumption = Some ''heavy'', bmi = Some 31,
      dietaryPattern = Some ''vegan'', familyHistory = Some [''breast''], age = Some 60,
      sex = Some ''male''\<rparr>"]
  by (simp add: build_search_queries_def clause_queries_def)

text \<open>
  Claim C7. For the profile with smoking status \<open>current\<close>, age 30, sex \<open>male\<close>, BMI 22,
  alcohol consumption \<open>none\<close>, an empty dietary pattern and no family history,
  \<open>build_search_queries\<close> returns exactly one query, the smoking query, in which
  \<open>smoking\<close> occurs (at its very start); the fallback query is not added.
\<close>

theorem build_search_queries_current_smoker:
  "build_search_queries
     \<lparr>smokingStatus = Some ''current'', alcoholConsumption = Some ''none'', bmi = Some 22,
      dietaryPattern = Some [], familyHistory = Some [], age = Some 30, sex = Some ''male''\<rparr>
     = [''smoking lung cancer risk factors epidemiology'']
   \<and> length (build_search_queries
     \<lparr>smokingStatus = Some ''current'', alcoholConsumption = Some ''none'', bmi = Some 22,
      dietaryPattern = Some [], familyHistory = Some [], age = Some 30, sex = Some ''male''\<rparr>) = 1
   \<and> find_sub ''smoking'' (hd (build_search_queries
     \<lparr>smokingStatus = Some ''current'', alcoholConsumption = Some ''none'', bmi = Some 22,
      dietaryPattern = Some [], familyHistory = Some [], age = Some 30, sex = Some ''male''\<rparr>))
     = Some ([], '' lung cancer risk factors epidemiology'')"
  by (simp add: build_search_queries_def clause_queries_def startswith_def)

section \<open>Properties of the parse step\<close>

lemma parse_loop_filter:
  "parse_loop articles acc =
     acc @ map (\<lambda>a. record_of a (the (title_match a)) (the (abstract_match a)))
             (filter (\<lambda>a. title_match a \<noteq> None \<and> abstract_match a \<noteq> None) articles)"
  by (induction articles arbitrary: acc) (auto split: option.splits)

lemma fetch_abstracts_parsed:
  assumes "pmids \<noteq> []" and "py_join '','' pmids = Inr ids" and "efetch ids = Inr xml_content"
  shows "fetch_abstracts efetch pmids = Inr (parse_articles xml_content)"
  using assms by (simp add: fetch_abstracts_def)

lemma fetch_abstracts_cases:
  assumes "fetch_abstracts efetch pmids = Inr rs"
  shows "rs = [] \<or> (\<exists>ids xml_content. pmids \<noteq> [] \<and> py_join '','' pmids = Inr ids
            \<and> efetch ids = Inr xml_content \<and> rs = parse_articles xml_content)"
  using assms by (auto simp: fetch_abstracts_def split: if_splits sum.splits)

text \<open>
  Claim C1, as stated, fails: a block whose \<open>ArticleTitle\<close> element is empty is returned
  with the empty string as its title. The guard \<open>if title_match and abstract_match\<close>
  tests that both elements were found, not that their text is non-empty.
\<close>

theorem fetch_abstracts_empty_title:
  \<open>fetch_abstracts
     (\<lambda>ids. Inr ''<PubmedArticle><PMID Version="1">1</PMID><ArticleTitle></ArticleTitle><AbstractText>x</AbstractText></PubmedArticle>'')
     [JStr ''1'']
   = Inr [\<lparr>title = [], abstract = ''x'', url = ''https://pubmed.ncbi.nlm.nih.gov/1/'',
           doi = ''https://pubmed.ncbi.nlm.nih.gov/1/'', year = None\<rparr>]\<close>
  by code_simp

text \<open>
  Claim C1, amended. When the fetch succeeds, \<open>fetch_abstracts\<close> returns, in the order of
  the blocks, one record for each block in which both an \<open>ArticleTitle\<close> and an
  \<open>AbstractText\<close> element are found, and no record for any other block; the title and
  the abstract of a record are the texts of these elements with markup removed and
  surrounding whitespace stripped, never a placeholder (and possibly empty).
\<close>

theorem fetch_abstracts_keeps_matched_blocks:
  assumes "pmids \<noteq> []" and "py_join '','' pmids = Inr ids" and "efetch ids = Inr xml_content"
  shows "fetch_abstracts efetch pmids =
     Inr (map (\<lambda>a. record_of a (the (title_match a)) (the (abstract_match a)))
            (filter (\<lambda>a. title_match a \<noteq> None \<and> abstract_match a \<noteq> None)
               (findall_articles xml_content)))"
  using assms by (simp add: fetch_abstracts_parsed parse_articles_def parse_loop_filter)

theorem fetch_abstracts_keeps_matched_blocks_witness:
  \<open>[JStr ''7''] \<noteq> [] \<and> py_join '','' [JStr ''7''] = Inr ''7''
   \<and> fetch_abstracts
     (\<lambda>ids. Inr ''<PubmedArticle><ArticleTitle>No abstract</ArticleTitle></PubmedArticle><PubmedArticle><PMID Version="1">7</PMID><ArticleTitle>A <i>b</i></ArticleTitle><AbstractText Label="X"> c </AbstractText></PubmedArticle>'')
     [JStr ''7'']
   = Inr [\<lparr>title = ''A b'', abstract = ''c'', url = ''https://pubmed.ncbi.nlm.nih.gov/7/'',
           doi = ''https://pubmed.ncbi.nlm.nih.gov/7/'', year = None\<rparr>]\<close>
proof -
  have h1: "[JStr ''7''] \<noteq> []" by simp
  have h2: "py_join '','' [JStr ''7''] = Inr ''7''" by simp
  have h3: \<open>(\<lambda>ids :: string. (Inr ''<PubmedArticle><ArticleTitle>No abstract</ArticleTitle></PubmedArticle><PubmedArticle><PMID Version="1">7</PMID><ArticleTitle>A <i>b</i></ArticleTitle><AbstractText Label="X"> c </AbstractText></PubmedArticle>'' :: error + string)) ''7''
     = Inr ''<PubmedArticle><ArticleTitle>No abstract</ArticleTitle></PubmedArticle><PubmedArticle><PMID Version="1">7</PMID><ArticleTitle>A <i>b</i></ArticleTitle><AbstractText Label="X"> c </AbstractText></PubmedArticle>''\<close>
    by simp
  have ev: \<open>map (\<lambda>a. record_of a (the (title_match a)) (the (abstract_match a)))
            (filter (\<lambda>a. title_match a \<noteq> None \<and> abstract_match a \<noteq> None)
               (findall_articles ''<PubmedArticle><ArticleTitle>No abstract</ArticleTitle></PubmedArticle><PubmedArticle><PMID Version="1">7</PMID><ArticleTitle>A <i>b</i></ArticleTitle><AbstractText Label="X"> c </AbstractText></PubmedArticle>''))
     = [\<lparr>title = ''A b'', abstract = ''c'', url = ''https://pubmed.ncbi.nlm.nih.gov/7/'',
           doi = ''https://pubmed.ncbi.nlm.nih.gov/7/'', year = None\<rparr>]\<close>
    by code_simp
  show ?thesis
    using fetch_abstracts_keeps_matched_blocks [OF h1 h2 h3] h1 h2 ev by simp
qed

text \<open>
  Claim C9. When the fetch succeeds and a block of the response has a title element and
  an abstract element but no match for the PMID pattern, \<open>fetch_abstracts\<close> returns a
  record for that block whose \<open>url\<close> and \<open>doi\<close> are both
  \<open>https://pubmed.ncbi.nlm.nih.gov/unknown/\<close>.
\<close>

theorem fetch_abstracts_unknown_pmid:
  assumes "pmids \<noteq> []" and "py_join '','' pmids = Inr ids" and "efetch ids = Inr xml_content"
    and "article \<in> set (findall_articles xml_content)"
    and "title_match article = Some t" and "abstract_match article = Some a"
    and "pmid_match article = None"
  shows "\<exists>rs. fetch_abstracts efetch pmids = Inr rs
           \<and> \<lparr>title = py_strip (strip_tags t), abstract = py_strip (strip_tags a),
               url = ''https://pubmed.ncbi.nlm.nih.gov/unknown/'',
               doi = ''https://pubmed.ncbi.nlm.nih.gov/unknown/'',
               year = map_option py_strip (year_match article)\<rparr> \<in> set rs"
proof -
  have "record_of article t a =
      \<lparr>title = py_strip (strip_tags t), abstract = py_strip (strip_tags a),
       url = ''https://pubmed.ncbi.nlm.nih.gov/unknown/'',
       doi = ''https://pubmed.ncbi.nlm.nih.gov/unknown/'',
       year = map_option py_strip (year_match article)\<rparr>"
    using assms(7) by (simp add: record_of_def pmid_of_def)
  moreover have "record_of article t a \<in> set (parse_articles xml_content)"
    using assms(4-6) by (force simp: parse_articles_def parse_loop_filter)
  moreover have "fetch_abstracts efetch pmids = Inr (parse_articles xml_content)"
    using assms(1-3) by (rule fetch_abstracts_parsed)
  ultimately show ?thesis by auto
qed

theorem fetch_abstracts_unknown_pmid_witness:
  \<open>fetch_abstracts
     (\<lambda>ids. Inr ''<PubmedArticle><PMID>9</PMID><ArticleTitle>T</ArticleTitle><AbstractText>A</AbstractText><PubDate><Year> 2021 </Year></PubDate></PubmedArticle>'')
     [JStr ''9'']
   = Inr [\<lparr>title = ''T'', abstract = ''A'', url = ''https://pubmed.ncbi.nlm.nih.gov/unknown/'',
           doi = ''https://pubmed.ncbi.nlm.nih.gov/unknown/'', year = Some ''2021''\<rparr>]
   \<and> (\<exists>rs. fetch_abstracts
     (\<lambda>ids. Inr ''<PubmedArticle><PMID>9</PMID><ArticleTitle>T</ArticleTitle><AbstractText>A</AbstractText><PubDate><Year> 2021 </Year></PubDate></PubmedArticle>'')
     [JStr ''9''] = Inr rs
       \<and> \<lparr>title = ''T'', abstract = ''A'', url = ''https://pubmed.ncbi.nlm.nih.gov/unknown/'',
           doi = ''https://pubmed.ncbi.nlm.nih.gov/unknown/'', year = Some ''2021''\<rparr> \<in> set rs)\<close>
proof -
  have h1: "[JStr ''9''] \<noteq> []" by simp
  have h2: "py_join '','' [JStr ''9''] = Inr ''9''" by simp
  have h3: \<open>(\<lambda>ids :: string. (Inr ''<PubmedArticle><PMID>9</PMID><ArticleTitle>T</ArticleTitle><AbstractText>A</AbstractText><PubDate><Year> 2021 </Year></PubDate></PubmedArticle>'' :: error + string)) ''9''
     = Inr ''<PubmedArticle><PMID>9</PMID><ArticleTitle>T</ArticleTitle><AbstractText>A</AbstractText><PubDate><Year> 2021 </Year></PubDate></PubmedArticle>''\<close>
    by simp
  have h4: \<open>''<PMID>9</PMID><ArticleTitle>T</ArticleTitle><AbstractText>A</AbstractText><PubDate><Year> 2021 </Year></PubDate>''
      \<in> set (findall_articles ''<PubmedArticle><PMID>9</PMID><ArticleTitle>T</ArticleTitle><AbstractText>A</AbstractText><PubDate><Year> 2021 </Year></PubDate></PubmedArticle>'')\<close>
    by code_simp
  have h5: \<open>title_match ''<PMID>9</PMID><ArticleTitle>T</ArticleTitle><AbstractText>A</AbstractText><PubDate><Year> 2021 </Year></PubDate>'' = Some ''T''\<close>
    by code_simp
  have h6: \<open>abstract_match ''<PMID>9</PMID><ArticleTitle>T</ArticleTitle><AbstractText>A</AbstractText><PubDate><Year> 2021 </Year></PubDate>'' = Some ''A''\<close>
    by code_simp
  have h7: \<open>pmid_match ''<PMID>9</PMID><ArticleTitle>T</ArticleTitle><AbstractText>A</AbstractText><PubDate><Year> 2021 </Year></PubDate>'' = None\<close>
    by code_simp
  have ev: \<open>fetch_abstracts
     (\<lambda>ids. Inr ''<PubmedArticle><PMID>9</PMID><ArticleTitle>T</ArticleTitle><AbstractText>A</AbstractText><PubDate><Year> 2021 </Year></PubDate></PubmedArticle>'')
     [JStr ''9'']
   = Inr [\<lparr>title = ''T'', abstract = ''A'', url = ''https://pubmed.ncbi.nlm.nih.gov/unknown/'',
           doi = ''https://pubmed.ncbi.nlm.nih.gov/unknown/'', year = Some ''2021''\<rparr>]\<close>
    by code_simp
  have st: "py_strip (strip_tags ''T'') = ''T''" "py_strip (strip_tags ''A'') = ''A''"
    \<open>map_option py_strip (year_match ''<PMID>9</PMID><ArticleTitle>T</ArticleTitle><AbstractText>A</AbstractText><PubDate><Year> 2021 </Year></PubDate>'') = Some ''2021''\<close>
    by code_simp+
  show ?thesis
    using fetch_abstracts_unknown_pmid [OF h1 h2 h3 h4 h5 h6 h7] ev
    unfolding st by simp
qed

text \<open>
  Claim C10. In every record that \<open>fetch_abstracts\<close> returns, \<open>doi\<close> is the same string
  as \<open>url\<close>, and both are the PubMed address built from the identifier \<open>pmid\<close> of a block
  of the fetched text.
\<close>

theorem fetch_abstracts_doi_is_url:
  assumes "fetch_abstracts efetch pmids = Inr rs" and "r \<in> set rs"
  shows "doi r = url r
     \<and> (\<exists>ids xml_content article. efetch ids = Inr xml_content
           \<and> article \<in> set (findall_articles xml_content)
           \<and> url r = ''https://pubmed.ncbi.nlm.nih.gov/'' @ pmid_of article @ ''/'')"
proof -
  from assms obtain ids xml_content where f: "efetch ids = Inr xml_content"
    and rs: "rs = parse_articles xml_content"
    using fetch_abstracts_cases [of efetch pmids rs] by auto
  from rs assms(2) obtain article where a: "article \<in> set (findall_articles xml_content)"
    and r: "r = record_of article (the (title_match article)) (the (abstract_match article))"
    by (auto simp: parse_articles_def parse_loop_filter)
  from r have "doi r = url r"
    and "url r = ''https://pubmed.ncbi.nlm.nih.gov/'' @ pmid_of article @ ''/''"
    by (simp_all add: record_of_def)
  with f a show ?thesis by blast
qed

theorem fetch_abstracts_doi_is_url_witness:
  \<open>fetch_abstracts
     (\<lambda>ids. Inr ''<PubmedArticle><PMID Version="1"> 42 </PMID><ArticleTitle>T</ArticleTitle><AbstractText>A</AbstractText></PubmedArticle>'')
     [JStr ''42'']
   = Inr [\<lparr>title = ''T'', abstract = ''A'', url = ''https://pubmed.ncbi.nlm.nih.gov/42/'',
           doi = ''https://pubmed.ncbi.nlm.nih.gov/42/'', year = None\<rparr>]
   \<and> doi \<lparr>title = ''T'', abstract = ''A'', url = ''https://pubmed.ncbi.nlm.nih.gov/42/'',
           doi = ''https://pubmed.ncbi.nlm.nih.gov/42/'', year = None\<rparr>
     = url \<lparr>title = ''T'', abstract = ''A'', url = ''https://pubmed.ncbi.nlm.nih.gov/42/'',
           doi = ''https://pubmed.ncbi.nlm.nih.gov/42/'', year = None\<rparr>\<close>
proof -
  have ev: \<open>fetch_abstracts
     (\<lambda>ids. Inr ''<PubmedArticle><PMID Version="1"> 42 </PMID><ArticleTitle>T</ArticleTitle><AbstractText>A</AbstractText></PubmedArticle>'')
     [JStr ''42'']
   = Inr [\<lparr>title = ''T'', abstract = ''A'', url = ''https://pubmed.ncbi.nlm.nih.gov/42/'',
           doi = ''https://pubmed.ncbi.nlm.nih.gov/42/'', year = None\<rparr>]\<close>
    by code_simp
  have mem: \<open>\<lparr>title = ''T'', abstract = ''A'', url = ''https://pubmed.ncbi.nlm.nih.gov/42/'',
           doi = ''https://pubmed.ncbi.nlm.nih.gov/42/'', year = None\<rparr>
      \<in> set [\<lparr>title = ''T'', abstract = ''A'', url = ''https://pubmed.ncbi.nlm.nih.gov/42/'',
           doi = ''https://pubmed.ncbi.nlm.nih.gov/42/'', year = None\<rparr>]\<close>
    by simp
  show ?thesis
    using fetch_abstracts_doi_is_url [OF ev mem] ev by simp
qed

section \<open>Properties of retrieval\<close>

text \<open>
  Following the words of the specification, not the source: removing duplicates while
  keeping the first occurrence of each element.
\<close>

fun first_seen :: "'a list \<Rightarrow> 'a list" where
  "first_seen [] = []"
| "first_seen (x # xs) = x # first_seen (filter (\<lambda>y. y \<noteq> x) xs)"

lemma set_first_seen: "set (first_seen xs) = set xs"
  by (induction xs rule: first_seen.induct) auto

lemma distinct_first_seen: "distinct (first_seen xs)"
  by (induction xs rule: first_seen.induct) (auto simp: set_first_seen)

lemma first_seen_snoc:
  "first_seen (xs @ [y]) = (if y \<in> set xs then first_seen xs else first_seen xs @ [y])"
  by (induction xs rule: first_seen.induct) auto

lemma py_eq_JStr [simp]: "py_eq (JStr a) (JStr b) = (a = b)"
  by (simp add: py_eq_def)

lemma list_ex_JStr: "list_ex (\<lambda>k. py_eq k (JStr x)) (map JStr ks) = (x \<in> set ks)"
  by (induction ks) auto

lemma fromkeys_strings:
  "fromkeys (map JStr xs) (map JStr ks) =
     Inr (map JStr (ks @ first_seen (filter (\<lambda>x. x \<notin> set ks) xs)))"
proof (induction xs arbitrary: ks)
  case Nil
  show ?case by simp
next
  case (Cons x xs)
  show ?case
  proof (cases "x \<in> set ks")
    case True
    then show ?thesis using Cons.IH [of ks] by (simp add: list_ex_JStr)
  next
    case False
    have "filter (\<lambda>y. y \<noteq> x) (filter (\<lambda>y. y \<notin> set ks) xs) = filter (\<lambda>y. y \<notin> set (ks @ [x])) xs"
      by (induction xs) auto
    with False show ?thesis using Cons.IH [of "ks @ [x]"] by (simp add: list_ex_JStr)
  qed
qed

lemma dedupe_cap_strings: "dedupe_cap (map JStr xs) = Inr (map JStr (take 5 (first_seen xs)))"
  using fromkeys_strings [of xs "[]"] by (simp add: dedupe_cap_def take_map)

lemma search_loop_strings:
  assumes "length idss = length queries"
    and "\<forall>i < length queries. search_pubmed loads (esearch (k + i)) (queries ! i) 2 = JArr (map JStr (idss ! i))"
  shows "search_loop loads esearch k queries acc = Inr (acc @ map JStr (concat idss))"
  using assms
proof (induction queries arbitrary: idss k acc)
  case Nil
  then show ?case by simp
next
  case (Cons q qs)
  then obtain ids rest where idss: "idss = ids # rest" by (cases idss) auto
  from Cons.prems(2) idss have hd: "search_pubmed loads (esearch k) q 2 = JArr (map JStr ids)"
    by fastforce
  have tl: "\<forall>i < length qs. search_pubmed loads (esearch (Suc k + i)) (qs ! i) 2 = JArr (map JStr (rest ! i))"
  proof (intro allI impI)
    fix i assume "i < length qs"
    then have "Suc i < length (q # qs)" by simp
    with Cons.prems(2) have "search_pubmed loads (esearch (k + Suc i)) ((q # qs) ! Suc i) 2 = JArr (map JStr (idss ! Suc i))"
      by blast
    with idss show "search_pubmed loads (esearch (Suc k + i)) (qs ! i) 2 = JArr (map JStr (rest ! i))"
      by simp
  qed
  from Cons.prems(1) idss have len: "length rest = length qs" by simp
  show ?case
    using Cons.IH [OF len tl, of "acc @ map JStr ids"] hd idss by simp
qed

lemma collect_pmids_strings:
  assumes "length idss = length queries"
    and "\<forall>i < length queries. search_pubmed loads (esearch i) (queries ! i) 2 = JArr (map JStr (idss ! i))"
  shows "collect_pmids loads esearch queries = Inr (map JStr (take 5 (first_seen (concat idss))))"
proof -
  have "search_loop loads esearch 0 queries [] = Inr (map JStr (concat idss))"
    using search_loop_strings [of idss queries loads esearch 0 "[]"] assms by simp
  then show ?thesis by (simp add: collect_pmids_def dedupe_cap_strings)
qed

lemma py_join_strings_ok: "\<exists>s. py_join sep (map JStr xs) = Inr s"
proof (induction xs)
  case Nil show ?case by simp
next
  case (Cons x xs)
  then show ?case by (cases xs) auto
qed

lemma retrieval_strings:
  assumes "length idss = length queries"
    and "\<forall>i < length queries. search_pubmed loads (esearch i) (queries ! i) 2 = JArr (map JStr (idss ! i))"
  shows "\<exists>rs. retrieval loads esearch efetch queries = Inr rs"
proof -
  have c: "collect_pmids loads esearch queries = Inr (map JStr (take 5 (first_seen (concat idss))))"
    using assms by (rule collect_pmids_strings)
  obtain s where "py_join '','' (map JStr (take 5 (first_seen (concat idss)))) = Inr s"
    using py_join_strings_ok by blast
  then have "\<exists>rs. fetch_abstracts efetch (map JStr (take 5 (first_seen (concat idss)))) = Inr rs"
    by (auto simp: fetch_abstracts_def split: sum.splits)
  with c show ?thesis by (simp add: retrieval_def)
qed

text \<open>
  Claim C5. When each query's search yields a list of identifiers, step 2 of \<open>handler\<close>
  yields the concatenation of these lists in query order, with duplicates removed
  keeping the first occurrence, cut to its first five entries. In particular the lists
  \<open>[a, b]\<close> and \<open>[b, c]\<close> of distinct identifiers give \<open>[a, b, c]\<close>.
\<close>

theorem collect_pmids_first_seen_capped:
  assumes "length idss = length queries"
    and "\<forall>i < length queries. search_pubmed loads (esearch i) (queries ! i) 2 = JArr (map JStr (idss ! i))"
  shows "collect_pmids loads esearch queries = Inr (map JStr (take 5 (first_seen (concat idss))))
       \<and> (\<forall>a b c. idss = [[a, b], [b, c]] \<and> distinct [a, b, c]
             \<longrightarrow> collect_pmids loads esearch queries = Inr [JStr a, JStr b, JStr c])"
proof -
  have main: "collect_pmids loads esearch queries = Inr (map JStr (take 5 (first_seen (concat idss))))"
    using assms by (rule collect_pmids_strings)
  moreover have "first_seen ([a, b] @ [b, c]) = [a, b, c]" if "distinct [a, b, c]" for a b c :: string
    using that by auto
  ultimately show ?thesis by auto
qed

theorem collect_pmids_first_seen_capped_witness:
  \<open>collect_pmids
      (\<lambda>s. if s = ''{"esearchresult":{"idlist":["A","B"]}}''
            then Some (JObj [(''esearchresult'', JObj [(''idlist'', JArr [JStr ''A'', JStr ''B''])])])
            else if s = ''{"esearchresult":{"idlist":["B","C"]}}''
            then Some (JObj [(''esearchresult'', JObj [(''idlist'', JArr [JStr ''B'', JStr ''C''])])])
            else None)
      (\<lambda>i q n. if i = 0 then Inr ''{"esearchresult":{"idlist":["A","B"]}}''
                else Inr ''{"esearchresult":{"idlist":["B","C"]}}'')
      [''former smoker cancer risk reduction'', ''overweight cancer risk metabolic syndrome'']
    = Inr [JStr ''A'', JStr ''B'', JStr ''C'']\<close>
proof -
  let ?loads = \<open>\<lambda>s. if s = ''{"esearchresult":{"idlist":["A","B"]}}''
            then Some (JObj [(''esearchresult'', JObj [(''idlist'', JArr [JStr ''A'', JStr ''B''])])])
            else if s = ''{"esearchresult":{"idlist":["B","C"]}}''
            then Some (JObj [(''esearchresult'', JObj [(''idlist'', JArr [JStr ''B'', JStr ''C''])])])
            else None\<close>
  let ?esearch = \<open>\<lambda>(i :: nat) (q :: string) (n :: nat). if i = 0 then (Inr ''{"esearchresult":{"idlist":["A","B"]}}'' :: error + string)
                else Inr ''{"esearchresult":{"idlist":["B","C"]}}''\<close>
  let ?queries = "[''former smoker cancer risk reduction'', ''overweight cancer risk metabolic syndrome'']"
  let ?idss = "[[''A'', ''B''], [''B'', ''C'']]"
  have h1: "length ?idss = length ?queries" by simp
  have h2: "\<forall>i < length ?queries. search_pubmed ?loads (?esearch i) (?queries ! i) 2 = JArr (map JStr (?idss ! i))"
    by (simp add: search_pubmed_def less_Suc_eq numeral_2_eq_2 all_conj_distrib)
  have d: "distinct [''A'', ''B'', ''C'']" by simp
  show ?thesis
    using collect_pmids_first_seen_capped [OF h1 h2] d by blast
qed

text \<open>
  Claim C3 does not hold of the code. A search response that is valid JSON but carries a
  number in its \<open>idlist\<close> is returned by \<open>search_pubmed\<close> as it is, not as the empty
  list, and \<open>fetch_abstracts\<close> then raises \<open>TypeError\<close> at the join of the identifiers,
  which stands before its \<open>try\<close>. The lemma \<open>retrieval_strings\<close> above is what does hold:
  retrieval returns whenever every search fails or yields a list of strings.
\<close>

theorem retrieval_raises_on_numeric_idlist:
  \<open>search_pubmed
      (\<lambda>s. if s = ''{"esearchresult":{"idlist":[123]}}''
            then Some (JObj [(''esearchresult'', JObj [(''idlist'', JArr [JInt 123])])])
            else None)
      (\<lambda>q n. Inr ''{"esearchresult":{"idlist":[123]}}'')
      ''lifestyle cancer risk prevention epidemiology'' 2
    = JArr [JInt 123]
   \<and> fetch_abstracts (\<lambda>ids. Inl (OtherError ''not reached'')) [JInt 123] = Inl TypeError
   \<and> retrieval
      (\<lambda>s. if s = ''{"esearchresult":{"idlist":[123]}}''
            then Some (JObj [(''esearchresult'', JObj [(''idlist'', JArr [JInt 123])])])
            else None)
      (\<lambda>i q n. Inr ''{"esearchresult":{"idlist":[123]}}'')
      (\<lambda>ids. Inl (OtherError ''not reached''))
      [''lifestyle cancer risk prevention epidemiology'']
    = Inl TypeError\<close>
  by (simp add: retrieval_def collect_pmids_def dedupe_cap_def search_pubmed_def fetch_abstracts_def)

end
